theory Spec2Isabelle
  imports Complex_Main "HOL-Library.AList" "HOL-Library.Char_ord" "HOL-Library.List_Lexorder"
begin

section \<open>The memory record and Go values\<close>

text \<open>
  A Go \<^verbatim>\<open>error\<close> is modelled by its message (what \<^verbatim>\<open>err.Error()\<close> returns), so that
  \<^verbatim>\<open>fmt.Errorf("failed to save memory: %w", err)\<close> is the prefixed message. A reading of
  \<^verbatim>\<open>time.Now()\<close> is modelled by its \<^verbatim>\<open>UnixNano()\<close> value; the program performs no
  arithmetic on it, so the \<^verbatim>\<open>int64\<close> is embedded in \<open>int\<close>.
\<close>

type_synonym error = string
type_synonym time = int

text \<open>\<^verbatim>\<open>type Memory struct\<close> (main.go, lines 18-25).\<close>

record Memory =
  ID :: string
  Content :: string
  Type :: string
  Tags :: "string list"
  CreatedAt :: time
  UpdatedAt :: time

text \<open>
  \<^verbatim>\<open>fmt.Sprintf("%d", n)\<close> for a signed integer: the decimal digits, most significant
  first, after a minus sign when the number is negative.
\<close>

definition digit_char :: "nat \<Rightarrow> char" where
  "digit_char d = ''0123456789'' ! d"

fun decimal :: "nat \<Rightarrow> string" where
  "decimal n = (if n < 10 then [digit_char n] else decimal (n div 10) @ [digit_char (n mod 10)])"

declare decimal.simps [simp del]

definition Sprintf_d :: "int \<Rightarrow> string" where
  "Sprintf_d i = (if i < 0 then CHR ''-'' # decimal (nat (- i)) else decimal (nat i))"



section \<open>The libraries the lexical variant calls\<close>

subsection \<open>encoding/json\<close>

text \<open>
  The bytes held in the bolt bucket either decode to a \<^verbatim>\<open>Memory\<close> or do not.
  \<^verbatim>\<open>json.Marshal\<close> of a \<^verbatim>\<open>Memory\<close> built by \<^verbatim>\<open>Add\<close> (strings, a string slice and
  readings of \<^verbatim>\<open>time.Now()\<close>) does not fail, so it is the constructor \<open>Encoded\<close>;
  \<^verbatim>\<open>json.Unmarshal\<close> fails on anything else that a database file may hold.
\<close>

datatype data = Encoded Memory | Malformed string

definition json_Marshal :: "Memory \<Rightarrow> data" where
  "json_Marshal memory = Encoded memory"

fun json_Unmarshal :: "data \<Rightarrow> error + Memory" where
  "json_Unmarshal (Encoded memory) = Inr memory"
| "json_Unmarshal (Malformed s) = Inl (''invalid character in '' @ s)"

subsection \<open>go.etcd.io/bbolt\<close>

text \<open>
  The bucket \<^verbatim>\<open>"memories"\<close> is an association list from keys to values.
  \<^verbatim>\<open>Bucket.Get\<close> returns nil for a key that is not there; \<^verbatim>\<open>Bucket.Put\<close> sets the value
  of a key, replacing the old one; \<^verbatim>\<open>Bucket.Delete\<close> removes a key and, as the library
  documents, does nothing and returns a nil error when the key does not exist;
  \<^verbatim>\<open>Bucket.ForEach\<close> visits the pairs in the byte order of their keys.
\<close>

type_synonym bucket = "(string \<times> data) list"

definition bucket_Get :: "bucket \<Rightarrow> string \<Rightarrow> data option" where
  "bucket_Get b k = map_of b k"

definition bucket_Put :: "bucket \<Rightarrow> string \<Rightarrow> data \<Rightarrow> bucket" where
  "bucket_Put b k v = AList.update k v b"

definition bucket_Delete :: "bucket \<Rightarrow> string \<Rightarrow> bucket" where
  "bucket_Delete b k = AList.delete k b"

definition bucket_pairs :: "bucket \<Rightarrow> (string \<times> data) list" where
  "bucket_pairs b = sort_key fst b"

text \<open>
  \<^verbatim>\<open>db.Update(fn)\<close> and \<^verbatim>\<open>db.View(fn)\<close> run \<open>fn\<close> in a transaction. The first argument is
  the error the transaction itself reports (an I/O failure, a closed database, a key the
  library rejects), if any: then nothing is written.
\<close>

definition db_Update :: "error option \<Rightarrow> (bucket \<Rightarrow> error + bucket) \<Rightarrow> bucket \<Rightarrow> error + bucket" where
  "db_Update fault fn b = (case fault of Some err \<Rightarrow> Inl err | None \<Rightarrow> fn b)"

definition db_View :: "error option \<Rightarrow> (bucket \<Rightarrow> error + 'a) \<Rightarrow> bucket \<Rightarrow> error + 'a" where
  "db_View fault fn b = (case fault of Some err \<Rightarrow> Inl err | None \<Rightarrow> fn b)"

subsection \<open>github.com/blevesearch/bleve/v2\<close>

text \<open>
  The index holds one document per id, in the order of insertion. \<^verbatim>\<open>Index(id, doc)\<close>
  replaces the document of an id that is already indexed; \<^verbatim>\<open>Delete(id)\<close> removes it and
  does nothing for an id that is not indexed. Both take the error the library reports, if
  any (an I/O failure, an id it rejects): then the index is unchanged.
\<close>

type_synonym index = "(string \<times> Memory) list"

definition index_Index :: "error option \<Rightarrow> index \<Rightarrow> string \<Rightarrow> Memory \<Rightarrow> error + index" where
  "index_Index fault idx k doc =
     (case fault of Some err \<Rightarrow> Inl err | None \<Rightarrow> Inr (AList.delete k idx @ [(k, doc)]))"

definition index_Delete :: "error option \<Rightarrow> index \<Rightarrow> string \<Rightarrow> error + index" where
  "index_Delete fault idx k =
     (case fault of Some err \<Rightarrow> Inl err | None \<Rightarrow> Inr (AList.delete k idx))"

text \<open>
  The queries the program builds. The first argument is the text or term, the second the
  field set by \<^verbatim>\<open>SetField\<close>.
\<close>

datatype query =
    MatchQuery string string
  | TermQuery string string
  | ConjunctionQuery "query list"
  | MatchAllQuery

text \<open>
  What the library decides inside: whether the analysed text of a field matches a match
  query, whether a field holds a term, and the relevance score of a hit (which may depend
  on the whole index). They are parameters of the model; \<open>'s\<close> is the type of scores.
\<close>

record 's searcher =
  match_hit :: "string \<Rightarrow> string \<Rightarrow> Memory \<Rightarrow> bool"
  term_hit :: "string \<Rightarrow> string \<Rightarrow> Memory \<Rightarrow> bool"
  relevance :: "index \<Rightarrow> query \<Rightarrow> Memory \<Rightarrow> 's"

fun query_matches :: "'s searcher \<Rightarrow> query \<Rightarrow> Memory \<Rightarrow> bool" where
  "query_matches sr (MatchQuery text field) doc = match_hit sr text field doc"
| "query_matches sr (TermQuery term field) doc = term_hit sr term field doc"
| "query_matches sr (ConjunctionQuery qs) doc = list_all (\<lambda>q. query_matches sr q doc) qs"
| "query_matches sr MatchAllQuery doc = True"

text \<open>
  \<^verbatim>\<open>bleve.NewSearchRequest(q)\<close> with its \<^verbatim>\<open>Size\<close> field: the request starts at the first
  hit and sorts by descending score.
\<close>

record SearchRequest =
  Query :: query
  Size :: nat

text \<open>
  Hits by descending score; hits of equal score stay in the order of the index.
\<close>

definition ranked :: "('s::linorder) searcher \<Rightarrow> index \<Rightarrow> query \<Rightarrow> index \<Rightarrow> index" where
  "ranked sr idx q hits = rev (sort_key (\<lambda>(k, doc). relevance sr idx q doc) (rev hits))"

definition index_Search ::
  "('s::linorder) searcher \<Rightarrow> error option \<Rightarrow> index \<Rightarrow> SearchRequest \<Rightarrow> error + string list" where
  "index_Search sr fault idx req =
     (case fault of
        Some err \<Rightarrow> Inl err
      | None \<Rightarrow>
          Inr (map fst (take (Size req)
            (ranked sr idx (Query req) (filter (\<lambda>(k, doc). query_matches sr (Query req) doc) idx)))))"

section \<open>The lexical variant: MemoryStore (main.go)\<close>

text \<open>\<^verbatim>\<open>type MemoryStore struct\<close>: the open database (its bucket) and the open index.\<close>

record MemoryStore =
  db :: bucket
  index :: index

text \<open>
  What one call of \<^verbatim>\<open>Add\<close>, \<^verbatim>\<open>Search\<close> or \<^verbatim>\<open>Delete\<close> receives from outside the
  program: the three readings of \<^verbatim>\<open>time.Now()\<close> in the order of the source (lines 103, 107
  and 108), the error of the bolt transaction and the error of the bleve call, if any.
\<close>

record io =
  now1 :: time
  now2 :: time
  now3 :: time
  db_fault :: "error option"
  index_fault :: "error option"

text \<open>The record that \<^verbatim>\<open>Add\<close> builds first (lines 102-109).\<close>

definition new_memory :: "io \<Rightarrow> string \<Rightarrow> string \<Rightarrow> string list \<Rightarrow> Memory" where
  "new_memory w content memType tags =
     \<lparr>ID = ''mem_'' @ Sprintf_d (now1 w), Content = content, Type = memType,
      Tags = tags, CreatedAt = now2 w, UpdatedAt = now3 w\<rparr>"

text \<open>\<^verbatim>\<open>func (ms *MemoryStore) Add\<close> (lines 101-130).\<close>

definition Add ::
  "MemoryStore \<Rightarrow> io \<Rightarrow> string \<Rightarrow> string \<Rightarrow> string list \<Rightarrow> (error + string) \<times> MemoryStore" where
  "Add ms w content memType tags =
     (let memory = new_memory w content memType tags
      in case db_Update (db_fault w)
                (\<lambda>b. Inr (bucket_Put b (ID memory) (json_Marshal memory))) (db ms) of
           Inl err \<Rightarrow> (Inl (''failed to save memory: '' @ err), ms)
         | Inr b \<Rightarrow>
             (case index_Index (index_fault w) (index ms) (ID memory) memory of
                Inl err \<Rightarrow> (Inl (''failed to index memory: '' @ err), ms\<lparr>db := b\<rparr>)
              | Inr idx \<Rightarrow> (Inr (ID memory), \<lparr>db = b, index = idx\<rparr>)))"

text \<open>
  A run of calls of \<^verbatim>\<open>Add\<close>, one after the other, each with what it receives from
  outside and its arguments: the store after the last call.
\<close>

fun add_all :: "MemoryStore \<Rightarrow> (io \<times> string \<times> string \<times> string list) list \<Rightarrow> MemoryStore" where
  "add_all ms [] = ms"
| "add_all ms ((w, content, memType, tags) # calls) =
     add_all (snd (Add ms w content memType tags)) calls"

text \<open>The query that \<^verbatim>\<open>Search\<close> builds from its arguments (lines 134-162).\<close>

definition searchQuery :: "string \<Rightarrow> string list \<Rightarrow> query" where
  "searchQuery queryString tags =
     (let queries = (if queryString \<noteq> [] then [MatchQuery queryString ''Content''] else [])
                    @ map (\<lambda>tag. TermQuery tag ''Tags'') tags
      in if length queries > 0
         then (if length queries = 1 then queries ! 0 else ConjunctionQuery queries)
         else MatchAllQuery)"

text \<open>
  The loop over the hits (lines 175-185): a hit with no data in the bucket, or with data
  that does not decode, is passed over by \<^verbatim>\<open>continue\<close>.
\<close>

fun fetch :: "bucket \<Rightarrow> string list \<Rightarrow> Memory list" where
  "fetch b [] = []"
| "fetch b (hit # hits) =
     (case bucket_Get b hit of
        None \<Rightarrow> fetch b hits
      | Some d \<Rightarrow>
          (case json_Unmarshal d of
             Inl err \<Rightarrow> fetch b hits
           | Inr memory \<Rightarrow> memory # fetch b hits))"

text \<open>\<^verbatim>\<open>func (ms *MemoryStore) Search\<close> (lines 133-190).\<close>

definition Search ::
  "('s::linorder) searcher \<Rightarrow> MemoryStore \<Rightarrow> io \<Rightarrow> string \<Rightarrow> string list \<Rightarrow> error + Memory list" where
  "Search sr ms w queryString tags =
     (let searchRequest = \<lparr>Query = searchQuery queryString tags, Size = 100\<rparr>
      in case index_Search sr (index_fault w) (index ms) searchRequest of
           Inl err \<Rightarrow> Inl (''search failed: '' @ err)
         | Inr hits \<Rightarrow> db_View (db_fault w) (\<lambda>b. Inr (fetch b hits)) (db ms))"

text \<open>\<^verbatim>\<open>func (ms *MemoryStore) Delete\<close> (lines 193-209): the error it returns, or none.\<close>

definition Delete :: "MemoryStore \<Rightarrow> io \<Rightarrow> string \<Rightarrow> error option \<times> MemoryStore" where
  "Delete ms w k =
     (case db_Update (db_fault w) (\<lambda>b. Inr (bucket_Delete b k)) (db ms) of
        Inl err \<Rightarrow> (Some (''failed to delete memory: '' @ err), ms)
      | Inr b \<Rightarrow>
          (case index_Delete (index_fault w) (index ms) k of
             Inl err \<Rightarrow> (Some (''failed to delete from index: '' @ err), ms\<lparr>db := b\<rparr>)
           | Inr idx \<Rightarrow> (None, \<lparr>db = b, index = idx\<rparr>)))"

subsection \<open>Startup\<close>

text \<open>
  What the two paths hold when the program starts: nothing, something the library cannot
  read, or a database (with or without the bucket) and an index.
\<close>

datatype 'a stored = Missing | Damaged error | Stored 'a

record disk =
  db_file :: "bucket option stored"
  index_dir :: "index stored"

text \<open>
  \<^verbatim>\<open>bolt.Open\<close> creates the file when it is missing. \<^verbatim>\<open>bleve.Open\<close> fails on a path that
  is missing or unreadable. \<^verbatim>\<open>bleve.New\<close> gives an empty index, or the error it reports.
\<close>

fun bolt_Open :: "bucket option stored \<Rightarrow> error + bucket option" where
  "bolt_Open Missing = Inr None"
| "bolt_Open (Damaged err) = Inl err"
| "bolt_Open (Stored f) = Inr f"

fun CreateBucketIfNotExists :: "bucket option \<Rightarrow> bucket" where
  "CreateBucketIfNotExists None = []"
| "CreateBucketIfNotExists (Some b) = b"

fun bleve_Open :: "index stored \<Rightarrow> error + index" where
  "bleve_Open Missing = Inl ''cannot open index, path does not exist''"
| "bleve_Open (Damaged err) = Inl err"
| "bleve_Open (Stored idx) = Inr idx"

definition bleve_New :: "error option \<Rightarrow> error + index" where
  "bleve_New fault = (case fault of Some err \<Rightarrow> Inl err | None \<Rightarrow> Inr [])"

text \<open>
  The errors the libraries report during startup, if any: of the transaction that creates
  the bucket, of \<^verbatim>\<open>bleve.New\<close>, of the read transaction, and of \<^verbatim>\<open>index.Index\<close> for the
  document of a given id.
\<close>

record boot =
  bucket_fault :: "error option"
  new_fault :: "error option"
  view_fault :: "error option"
  doc_fault :: "string \<Rightarrow> error option"

text \<open>The callback of \<^verbatim>\<open>b.ForEach\<close> (lines 73-79): the first error ends the iteration.\<close>

fun index_existing :: "(string \<Rightarrow> error option) \<Rightarrow> (string \<times> data) list \<Rightarrow> index \<Rightarrow> error + index" where
  "index_existing flt [] idx = Inr idx"
| "index_existing flt ((k, v) # kvs) idx =
     (case json_Unmarshal v of
        Inl err \<Rightarrow> Inl err
      | Inr memory \<Rightarrow>
          (case index_Index (flt (ID memory)) idx (ID memory) memory of
             Inl err \<Rightarrow> Inl err
           | Inr idx' \<Rightarrow> index_existing flt kvs idx'))"

text \<open>\<^verbatim>\<open>func NewMemoryStore\<close> (lines 38-90).\<close>

definition NewMemoryStore :: "disk \<Rightarrow> boot \<Rightarrow> error + MemoryStore" where
  "NewMemoryStore d w =
     (case bolt_Open (db_file d) of
        Inl err \<Rightarrow> Inl (''failed to open database: '' @ err)
      | Inr f \<Rightarrow>
          (case db_Update (bucket_fault w) (\<lambda>b. Inr b) (CreateBucketIfNotExists f) of
             Inl err \<Rightarrow> Inl (''failed to create bucket: '' @ err)
           | Inr b \<Rightarrow>
               (case bleve_Open (index_dir d) of
                  Inr idx \<Rightarrow> Inr \<lparr>db = b, index = idx\<rparr>
                | Inl _ \<Rightarrow>
                    (case bleve_New (new_fault w) of
                       Inl createErr \<Rightarrow> Inl (''failed to create index: '' @ createErr)
                     | Inr fresh \<Rightarrow>
                         (case db_View (view_fault w)
                                 (\<lambda>b. index_existing (doc_fault w) (bucket_pairs b) fresh) b of
                            Inl err \<Rightarrow> Inl (''failed to index existing memories: '' @ err)
                          | Inr idx \<Rightarrow> Inr \<lparr>db = b, index = idx\<rparr>)))))"

subsection \<open>The tool handlers\<close>

text \<open>
  A value of \<^verbatim>\<open>request.Params.Arguments\<close>, a \<^verbatim>\<open>map[string]interface{}\<close> decoded from
  JSON: nil, a bool, a \<^verbatim>\<open>float64\<close> (modelled by the real number it denotes), a string, a
  slice or a map. A type assertion \<^verbatim>\<open>.(string)\<close> succeeds on \<open>JString\<close> only, and fails
  on a key that is not in the map.
\<close>

datatype any = JNull | JBool bool | JNumber real | JString string | JArray "any list"
  | JObject "(string \<times> any) list"

type_synonym Arguments = "string \<Rightarrow> any option"

datatype CallToolResult = NewToolResultText string | NewToolResultError string

text \<open>The loop that keeps the strings of the \<^verbatim>\<open>tags\<close> argument (lines 254-261).\<close>

fun string_tags :: "any option \<Rightarrow> string list" where
  "string_tags (Some (JArray t)) =
     List.map_filter (\<lambda>tag. case tag of JString strTag \<Rightarrow> Some strTag | _ \<Rightarrow> None) t"
| "string_tags _ = []"

text \<open>The handler of \<^verbatim>\<open>add_memory\<close> (lines 243-269).\<close>

definition addMemoryTool_handler ::
  "MemoryStore \<Rightarrow> io \<Rightarrow> Arguments \<Rightarrow> CallToolResult \<times> MemoryStore" where
  "addMemoryTool_handler memStore w args =
     (case args ''content'' of
        Some (JString content) \<Rightarrow>
          (let memType = (case args ''type'' of Some (JString t) \<Rightarrow> t | _ \<Rightarrow> ''fact'');
               tags = string_tags (args ''tags'')
           in case Add memStore w content memType tags of
                (Inl err, ms) \<Rightarrow> (NewToolResultError err, ms)
              | (Inr k, ms) \<Rightarrow> (NewToolResultText (''Memory stored with ID: '' @ k), ms))
      | _ \<Rightarrow> (NewToolResultError ''content must be a string'', memStore))"



text \<open>The handler of \<^verbatim>\<open>delete_memory\<close> (lines 325-336).\<close>

definition deleteTool_handler ::
  "MemoryStore \<Rightarrow> io \<Rightarrow> Arguments \<Rightarrow> CallToolResult \<times> MemoryStore" where
  "deleteTool_handler memStore w args =
     (case args ''id'' of
        Some (JString k) \<Rightarrow>
          (case Delete memStore w k of
             (Some err, ms) \<Rightarrow> (NewToolResultError err, ms)
           | (None, ms) \<Rightarrow> (NewToolResultText (''Memory '' @ k @ '' deleted successfully''), ms))
      | _ \<Rightarrow> (NewToolResultError ''id must be a string'', memStore))"

section \<open>The semantic variant: MemoryServer (part_000)\<close>

text \<open>
  The fields of \<^verbatim>\<open>chromem.Document\<close> that the handler sets and of \<^verbatim>\<open>chromem.Result\<close>
  that it reads; \<open>'e\<close> is the type of a \<^verbatim>\<open>float32\<close>. The metadata map is an association
  list.
\<close>

record 'e Document =
  doc_ID :: string
  doc_Metadata :: "(string \<times> string) list"
  doc_Embedding :: "'e list"
  doc_Content :: string

record 'e Result =
  res_Content :: string
  res_Metadata :: "(string \<times> string) list"
  res_Similarity :: 'e

text \<open>
  What the handlers call outside the program. The collection \<open>'c\<close> and the numbers of the
  embedding provider \<open>'d\<close> are left abstract: \<^verbatim>\<open>CreateEmbeddings\<close> gives the \<^verbatim>\<open>Data\<close> of
  the response (one embedding per element) or an error; \<^verbatim>\<open>AddDocument\<close> gives its error,
  if any, and the collection after the call; \<^verbatim>\<open>QueryEmbedding\<close> takes the number of
  results asked for; \<open>float32\<close> is the conversion of line 52; \<open>Sprintf_3f\<close> prints a
  similarity with \<^verbatim>\<open>%.3f\<close>; \<open>time_Now\<close> is the reading of the clock at line 121.
\<close>

record ('c, 'd, 'e) outside =
  CreateEmbeddings :: "string \<Rightarrow> error + 'd list list"
  float32 :: "'d \<Rightarrow> 'e"
  AddDocument :: "'c \<Rightarrow> 'e Document \<Rightarrow> error option \<times> 'c"
  QueryEmbedding :: "'c \<Rightarrow> 'e list \<Rightarrow> int \<Rightarrow> error + 'e Result list"
  Sprintf_3f :: "'e \<Rightarrow> string"
  time_Now :: time

text \<open>A call either returns or panics (an index out of range).\<close>

datatype 'a run = Panic string | Returns 'a

text \<open>\<^verbatim>\<open>func (ms *MemoryServer) generateEmbedding\<close> (lines 37-56).\<close>

definition generateEmbedding :: "('c, 'd, 'e) outside \<Rightarrow> string \<Rightarrow> (error + 'e list) run" where
  "generateEmbedding out text =
     (case CreateEmbeddings out text of
        Inl err \<Rightarrow> Returns (Inl (''error creating embedding: '' @ err))
      | Inr Data \<Rightarrow>
          (case Data of
             [] \<Rightarrow> Panic ''index out of range [0] with length 0''
           | embedding # _ \<Rightarrow> Returns (Inr (map (float32 out) embedding))))"

text \<open>The handler of \<^verbatim>\<open>add_memory\<close> (lines 102-134): its result and the collection after it.\<close>

definition addMemoryTool_handler_semantic ::
  "('c, 'd, 'e) outside \<Rightarrow> 'c \<Rightarrow> Arguments \<Rightarrow> (CallToolResult \<times> 'c) run" where
  "addMemoryTool_handler_semantic out collection args =
     (case args ''content'' of
        Some (JString content) \<Rightarrow>
          (let metadata = (case args ''metadata'' of Some (JString m) \<Rightarrow> m | _ \<Rightarrow> [])
           in case generateEmbedding out content of
                Panic p \<Rightarrow> Panic p
              | Returns (Inl err) \<Rightarrow>
                  Returns (NewToolResultError (''failed to generate embedding: '' @ err), collection)
              | Returns (Inr embedding) \<Rightarrow>
                  (let doc = \<lparr>doc_ID = ''mem_'' @ Sprintf_d (time_Now out),
                              doc_Metadata = [(''raw_metadata'', metadata)],
                              doc_Embedding = embedding, doc_Content = content\<rparr>
                   in case AddDocument out collection doc of
                        (Some err, c) \<Rightarrow>
                          Returns (NewToolResultError (''failed to add document: '' @ err), c)
                      | (None, c) \<Rightarrow>
                          Returns (NewToolResultText (''Memory stored with ID: '' @ doc_ID doc), c)))
      | _ \<Rightarrow> Returns (NewToolResultError ''content must be a string'', collection))"

text \<open>
  \<^verbatim>\<open>int(l)\<close> for a \<^verbatim>\<open>float64\<close>: the fraction is discarded (for a value in the range of
  \<^verbatim>\<open>int\<close>).
\<close>

definition float64_to_int :: "real \<Rightarrow> int" where
  "float64_to_int l = (if l < 0 then \<lceil>l\<rceil> else \<lfloor>l\<rfloor>)"

text \<open>The text of the results (lines 178-185).\<close>

fun found_lines :: "('c, 'd, 'e) outside \<Rightarrow> nat \<Rightarrow> 'e Result list \<Rightarrow> string" where
  "found_lines out i [] = []"
| "found_lines out i (result # results) =
     ''['' @ Sprintf_d (int (i + 1)) @ ''] '' @ res_Content result
     @ '' (similarity: '' @ Sprintf_3f out (res_Similarity result) @ '')'' @ [CHR 0x0A]
     @ (case map_of (res_Metadata result) ''raw_metadata'' of
          Some metadata \<Rightarrow>
            (if metadata \<noteq> [] then ''   Metadata: '' @ metadata @ [CHR 0x0A] else [])
        | None \<Rightarrow> [])
     @ [CHR 0x0A]
     @ found_lines out (i + 1) results"

text \<open>
  The first part of the handler of \<^verbatim>\<open>search_memory\<close> (lines 150-171): the results of the
  query against the collection.
\<close>

definition searchTool_results ::
  "('c, 'd, 'e) outside \<Rightarrow> 'c \<Rightarrow> string \<Rightarrow> Arguments \<Rightarrow> (error + 'e Result list) run" where
  "searchTool_results out collection query args =
     (let limit = (case args ''limit'' of Some (JNumber l) \<Rightarrow> float64_to_int l | _ \<Rightarrow> 5)
      in case generateEmbedding out query of
           Panic p \<Rightarrow> Panic p
         | Returns (Inl err) \<Rightarrow> Returns (Inl (''failed to generate query embedding: '' @ err))
         | Returns (Inr queryEmbedding) \<Rightarrow>
             (case QueryEmbedding out collection queryEmbedding limit of
                Inl err \<Rightarrow> Returns (Inl (''search failed: '' @ err))
              | Inr results \<Rightarrow> Returns (Inr results)))"

text \<open>The handler of \<^verbatim>\<open>search_memory\<close> (lines 150-188).\<close>

definition searchTool_handler_semantic ::
  "('c, 'd, 'e) outside \<Rightarrow> 'c \<Rightarrow> Arguments \<Rightarrow> CallToolResult run" where
  "searchTool_handler_semantic out collection args =
     (case args ''query'' of
        Some (JString query) \<Rightarrow>
          (case searchTool_results out collection query args of
             Panic p \<Rightarrow> Panic p
           | Returns (Inl err) \<Rightarrow> Returns (NewToolResultError err)
           | Returns (Inr results) \<Rightarrow>
               (if length results = 0 then Returns (NewToolResultText ''No matching memories found.'')
                else Returns (NewToolResultText
                  (''Found '' @ Sprintf_d (int (length results)) @ '' relevant memories:''
                   @ [CHR 0x0A, CHR 0x0A] @ found_lines out 0 results))))
      | _ \<Rightarrow> Returns (NewToolResultError ''query must be a string''))"

section \<open>Example inputs\<close>

text \<open>A call in which no library reports an error, with the clock read at \<open>t\<close>.\<close>

definition quiet :: "time \<Rightarrow> io" where
  "quiet t = \<lparr>now1 = t, now2 = t + 1, now3 = t + 2, db_fault = None, index_fault = None\<rparr>"

definition paris :: Memory where
  "paris = \<lparr>ID = ''mem_1'', Content = ''The capital of France is Paris'', Type = ''fact'',
     Tags = [''geography''], CreatedAt = 2, UpdatedAt = 3\<rparr>"

definition water :: Memory where
  "water = \<lparr>ID = ''mem_4'', Content = ''Water boils at 100C'', Type = ''fact'',
     Tags = [''physics''], CreatedAt = 5, UpdatedAt = 6\<rparr>"

definition empty_store :: MemoryStore where
  "empty_store = \<lparr>db = [], index = []\<rparr>"

definition paris_store :: MemoryStore where
  "paris_store = \<lparr>db = [(''mem_1'', Encoded paris)], index = [(''mem_1'', paris)]\<rparr>"

text \<open>A store whose index still holds an id that the bucket has lost.\<close>

definition dangling_store :: MemoryStore where
  "dangling_store = \<lparr>db = [], index = [(''mem_1'', paris)]\<rparr>"

text \<open>
  An embedding provider that fails on the empty text, and a collection that is the list of
  its documents.
\<close>

definition stub_outside :: "time \<Rightarrow> (real Document list, real, real) outside" where
  "stub_outside t =
     \<lparr>CreateEmbeddings = (\<lambda>text. if text = [] then Inl ''quota exceeded'' else Inr [[1]]),
      float32 = (\<lambda>v. v),
      AddDocument = (\<lambda>c doc. (None, c @ [doc])),
      QueryEmbedding = (\<lambda>c e n. Inr (map (\<lambda>doc. \<lparr>res_Content = doc_Content doc,
         res_Metadata = doc_Metadata doc, res_Similarity = 1\<rparr>) (take (nat n) c))),
      Sprintf_3f = (\<lambda>v. ''1.000''),
      time_Now = t\<rparr>"



text \<open>
  A searcher for the examples: a match query hits the document whose content is the text,
  a term query the documents that carry the term as a tag, and all scores are equal.
\<close>

definition exact_searcher :: "nat searcher" where
  "exact_searcher = \<lparr>match_hit = (\<lambda>text field doc. field = ''Content'' \<and> text = Content doc),
     term_hit = (\<lambda>term field doc. field = ''Tags'' \<and> term \<in> set (Tags doc)),
     relevance = (\<lambda>idx q doc. 0)\<rparr>"

text \<open>A store whose index holds two ids, one of them without a record in the bucket.\<close>

definition half_store :: MemoryStore where
  "half_store =
     \<lparr>db = [(''mem_4'', Encoded water)], index = [(''mem_1'', paris), (''mem_4'', water)]\<rparr>"

text \<open>A call in which the bucket is written and the index reports an error.\<close>

definition index_down :: "time \<Rightarrow> io" where
  "index_down t =
     \<lparr>now1 = t, now2 = t + 1, now3 = t + 2, db_fault = None, index_fault = Some ''disk full''\<rparr>"

text \<open>Three calls of \<^verbatim>\<open>Add\<close> with the tags \<open>a\<close>, \<open>b\<close> and both.\<close>

definition three_calls :: "(io \<times> string \<times> string \<times> string list) list" where
  "three_calls = [(quiet 1, ''first'', ''fact'', [''a'']), (quiet 4, ''second'', ''fact'', [''b'']),
     (quiet 7, ''third'', ''fact'', [''a'', ''b''])]"

text \<open>
  A disk whose database holds two records and whose index is missing, and a startup in
  which no library reports an error.
\<close>

definition lost_index :: disk where
  "lost_index = \<lparr>db_file = Stored (Some [(''mem_4'', Encoded water), (''mem_1'', Encoded paris)]),
     index_dir = Missing\<rparr>"

definition clean_boot :: boot where
  "clean_boot = \<lparr>bucket_fault = None, new_fault = None, view_fault = None,
     doc_fault = (\<lambda>k. None)\<rparr>"

section \<open>Properties\<close>

subsection \<open>Decimal formatting is injective\<close>

lemma digit_char_inj: "d < 10 \<Longrightarrow> e < 10 \<Longrightarrow> digit_char d = digit_char e \<Longrightarrow> d = e"
proof -
  assume d: "d < 10" and e: "e < 10" and eq: "digit_char d = digit_char e"
  have "distinct ''0123456789''" by simp
  moreover have "d < length ''0123456789''" "e < length ''0123456789''" using d e by simp_all
  ultimately show "d = e" using eq unfolding digit_char_def by (simp only: nth_eq_iff_index_eq)
qed

lemma decimal_not_Nil: "decimal n \<noteq> []" "[] \<noteq> decimal n"
  by (subst decimal.simps, simp)+

lemma digit_char_in: "d < 10 \<Longrightarrow> digit_char d \<in> set ''0123456789''"
  unfolding digit_char_def by (rule nth_mem) simp

lemma decimal_digits: "set (decimal n) \<subseteq> set ''0123456789''"
proof (induction n rule: decimal.induct)
  case (1 n)
  show ?case
  proof (cases "n < 10")
    case True
    then show ?thesis using digit_char_in [of n] by (subst decimal.simps) simp
  next
    case False
    have "n mod 10 < 10" by simp
    then have "digit_char (n mod 10) \<in> set ''0123456789''" by (rule digit_char_in)
    with False "1.IH" show ?thesis by (subst decimal.simps) simp
  qed
qed

lemma decimal_inj: "decimal m = decimal n \<Longrightarrow> m = n"
proof (induction m arbitrary: n rule: decimal.induct)
  case (1 m)
  show ?case
  proof (cases "m < 10")
    case m: True
    show ?thesis
    proof (cases "n < 10")
      case True
      with m "1.prems" show ?thesis
        by (simp add: decimal.simps [of m] decimal.simps [of n] digit_char_inj)
    next
      case False
      with m "1.prems" show ?thesis
        by (simp add: decimal.simps [of m] decimal.simps [of n] decimal_not_Nil)
    qed
  next
    case m: False
    show ?thesis
    proof (cases "n < 10")
      case True
      with m "1.prems" show ?thesis
        by (simp add: decimal.simps [of m] decimal.simps [of n] decimal_not_Nil)
    next
      case False
      with m "1.prems" have eq: "decimal (m div 10) = decimal (n div 10)"
        and dg: "digit_char (m mod 10) = digit_char (n mod 10)"
        by (simp_all add: decimal.simps [of m] decimal.simps [of n])
      from "1.IH" [OF m eq] have "m div 10 = n div 10" .
      moreover from dg have "m mod 10 = n mod 10" by (intro digit_char_inj) simp_all
      ultimately show ?thesis by (metis div_mult_mod_eq)
    qed
  qed
qed

lemma Sprintf_d_inj: "Sprintf_d i = Sprintf_d j \<Longrightarrow> i = j"
proof -
  assume eq: "Sprintf_d i = Sprintf_d j"
  have minus: "CHR ''-'' \<notin> set (decimal n)" for n
    using decimal_digits [of n] by auto
  have hd: "decimal n \<noteq> CHR ''-'' # xs" for n xs
    using minus [of n] by auto
  show "i = j"
  proof (cases "i < 0")
    case i: True
    show ?thesis
    proof (cases "j < 0")
      case True
      with i eq have "decimal (nat (- i)) = decimal (nat (- j))" by (simp add: Sprintf_d_def)
      then have "nat (- i) = nat (- j)" by (rule decimal_inj)
      with i True show ?thesis by simp
    next
      case False
      with i eq hd [of "nat j"] show ?thesis by (simp add: Sprintf_d_def) metis
    qed
  next
    case i: False
    show ?thesis
    proof (cases "j < 0")
      case True
      with i eq hd [of "nat i"] show ?thesis by (simp add: Sprintf_d_def)
    next
      case False
      with i eq have "decimal (nat i) = decimal (nat j)" by (simp add: Sprintf_d_def)
      then have "nat i = nat j" by (rule decimal_inj)
      with i False show ?thesis by simp
    qed
  qed
qed

subsection \<open>Association lists\<close>

lemma delete_absent: "map_of b k = None \<Longrightarrow> AList.delete k b = b"
  by (induction b) (auto split: if_splits)

subsection \<open>Delete\<close>

text \<open>
  Claim C1, as the code has it. \<^verbatim>\<open>Delete\<close> has no not-found result: for an id that is not
  in the bucket, and when neither library reports an error, it returns no error, leaves
  the bucket as it was and still removes the id from the index. Deleting the same id twice
  in a row therefore returns no error both times.
\<close>

theorem Delete_absent_ok:
  assumes "db_fault w = None" and "index_fault w = None"
    and "db_fault w' = None" and "index_fault w' = None"
  shows "(bucket_Get (db ms) k = None \<longrightarrow>
            Delete ms w k = (None, \<lparr>db = db ms, index = AList.delete k (index ms)\<rparr>))
       \<and> fst (Delete ms w k) = None
       \<and> fst (Delete (snd (Delete ms w k)) w' k) = None"
  using assms
  by (simp add: Delete_def db_Update_def index_Delete_def bucket_Delete_def bucket_Get_def
      delete_absent)

theorem Delete_absent_ok_witness:
  "Delete dangling_store (quiet 1) ''mem_1'' = (None, empty_store)
   \<and> fst (Delete paris_store (quiet 1) ''mem_1'') = None
   \<and> fst (Delete (snd (Delete paris_store (quiet 1) ''mem_1'')) (quiet 5) ''mem_1'') = None"
  using Delete_absent_ok [of "quiet 1" "quiet 5" dangling_store "''mem_1''"]
    Delete_absent_ok [of "quiet 1" "quiet 5" paris_store "''mem_1''"]
  by (simp add: quiet_def dangling_store_def empty_store_def bucket_Get_def)

text \<open>
  Claim C1 as stated fails: after a first delete the id is absent, and the second delete
  returns no error, which the handler reports as a success; and a delete of an absent id
  does change the index when the index still holds the id.
\<close>

theorem Delete_NotFound_counterexample:
  "bucket_Get (db (snd (Delete paris_store (quiet 1) ''mem_1''))) ''mem_1'' = None
   \<and> fst (Delete (snd (Delete paris_store (quiet 1) ''mem_1'')) (quiet 5) ''mem_1'') = None
   \<and> bucket_Get (db dangling_store) ''mem_1'' = None
   \<and> fst (Delete dangling_store (quiet 1) ''mem_1'') = None
   \<and> index (snd (Delete dangling_store (quiet 1) ''mem_1'')) \<noteq> index dangling_store
   \<and> fst (deleteTool_handler (snd (Delete paris_store (quiet 1) ''mem_1'')) (quiet 5)
        [''id'' \<mapsto> JString ''mem_1''])
       = NewToolResultText ''Memory mem_1 deleted successfully''"
  by (simp add: deleteTool_handler_def Delete_def db_Update_def index_Delete_def
      bucket_Delete_def bucket_Get_def quiet_def paris_store_def dangling_store_def)

subsection \<open>The ids that Add assigns\<close>

lemma Add_Inr_id:
  "fst (Add ms w content memType tags) = Inr k \<Longrightarrow> k = ''mem_'' @ Sprintf_d (now1 w)"
  by (auto simp: Add_def new_memory_def Let_def db_Update_def index_Index_def split: option.splits)

lemma semantic_add_text:
  "addMemoryTool_handler_semantic out c args = Returns (NewToolResultText t, c1) \<Longrightarrow>
   t = ''Memory stored with ID: mem_'' @ Sprintf_d (time_Now out)"
  by (auto simp: addMemoryTool_handler_semantic_def Let_def
      split: option.splits any.splits run.splits sum.splits prod.splits)

text \<open>
  Claim C2, as the code has it. The id is the clock reading in decimal after \<^verbatim>\<open>mem_\<close>, so
  two successful adds are given the same id exactly when their clock readings are the
  same, in the lexical and in the semantic variant.
\<close>

theorem Add_ids_equal_iff_clock:
  "(fst (Add ms w content memType tags) = Inr k
      \<and> fst (Add ms' w' content' memType' tags') = Inr k'
      \<longrightarrow> (k = k') = (now1 w = now1 w'))
   \<and> (addMemoryTool_handler_semantic out c args = Returns (NewToolResultText t, c1)
      \<and> addMemoryTool_handler_semantic out' c' args' = Returns (NewToolResultText t', c1')
      \<longrightarrow> (t = t') = (time_Now out = time_Now out'))"
proof (intro conjI impI)
  assume "fst (Add ms w content memType tags) = Inr k
      \<and> fst (Add ms' w' content' memType' tags') = Inr k'"
  then have "k = ''mem_'' @ Sprintf_d (now1 w)" and "k' = ''mem_'' @ Sprintf_d (now1 w')"
    by (auto dest: Add_Inr_id)
  then show "(k = k') = (now1 w = now1 w')"
    by (auto dest: Sprintf_d_inj)
next
  assume "addMemoryTool_handler_semantic out c args = Returns (NewToolResultText t, c1)
      \<and> addMemoryTool_handler_semantic out' c' args' = Returns (NewToolResultText t', c1')"
  then have "t = ''Memory stored with ID: mem_'' @ Sprintf_d (time_Now out)"
    and "t' = ''Memory stored with ID: mem_'' @ Sprintf_d (time_Now out')"
    by (auto dest: semantic_add_text)
  then show "(t = t') = (time_Now out = time_Now out')"
    by (auto dest: Sprintf_d_inj)
qed

lemmas Add_eval = Add_def new_memory_def Let_def quiet_def empty_store_def Sprintf_d_def decimal.simps
  digit_char_def db_Update_def bucket_Put_def json_Marshal_def index_Index_def

theorem Add_ids_equal_iff_clock_witness:
  "fst (Add empty_store (quiet 1) ''a'' ''fact'' []) = Inr ''mem_1''
   \<and> fst (Add paris_store (quiet 4) ''b'' ''fact'' []) = Inr ''mem_4''
   \<and> (''mem_1'' = ''mem_4'') = ((1::int) = 4)
   \<and> addMemoryTool_handler_semantic (stub_outside 1) [] [''content'' \<mapsto> JString ''a'']
       = Returns (NewToolResultText ''Memory stored with ID: mem_1'',
           [\<lparr>doc_ID = ''mem_1'', doc_Metadata = [(''raw_metadata'', [])],
             doc_Embedding = [1], doc_Content = ''a''\<rparr>])
   \<and> addMemoryTool_handler_semantic (stub_outside 4) []
         [''content'' \<mapsto> JString ''b'', ''metadata'' \<mapsto> JString ''x'']
       = Returns (NewToolResultText ''Memory stored with ID: mem_4'',
           [\<lparr>doc_ID = ''mem_4'', doc_Metadata = [(''raw_metadata'', ''x'')],
             doc_Embedding = [1], doc_Content = ''b''\<rparr>])
   \<and> (''Memory stored with ID: mem_1'' = ''Memory stored with ID: mem_4'') = ((1::int) = 4)"
  using Add_ids_equal_iff_clock [of empty_store "quiet 1" "''a''" "''fact''" "[]" "''mem_1''"
      paris_store "quiet 4" "''b''" "''fact''" "[]" "''mem_4''"
      "stub_outside 1" "[]" "[''content'' \<mapsto> JString ''a'']" "''Memory stored with ID: mem_1''"
      "[\<lparr>doc_ID = ''mem_1'', doc_Metadata = [(''raw_metadata'', [])],
         doc_Embedding = [1], doc_Content = ''a''\<rparr>]"
      "stub_outside 4" "[]" "[''content'' \<mapsto> JString ''b'', ''metadata'' \<mapsto> JString ''x'']"
      "''Memory stored with ID: mem_4''"
      "[\<lparr>doc_ID = ''mem_4'', doc_Metadata = [(''raw_metadata'', ''x'')],
         doc_Embedding = [1], doc_Content = ''b''\<rparr>]"]
  by (simp add: Add_eval paris_store_def addMemoryTool_handler_semantic_def
      generateEmbedding_def stub_outside_def)

text \<open>
  Claim C2 as stated fails: two adds in a row whose clock readings are the same are given
  the same id, and the second record replaces the first in the bucket and in the index.
\<close>

theorem Add_same_clock_counterexample:
  "fst (Add empty_store (quiet 1) ''a'' ''fact'' []) = Inr ''mem_1''
   \<and> Add (snd (Add empty_store (quiet 1) ''a'' ''fact'' [])) (quiet 1) ''b'' ''note'' []
       = (Inr ''mem_1'',
          \<lparr>db = [(''mem_1'', Encoded \<lparr>ID = ''mem_1'', Content = ''b'', Type = ''note'',
                    Tags = [], CreatedAt = 2, UpdatedAt = 3\<rparr>)],
           index = [(''mem_1'', \<lparr>ID = ''mem_1'', Content = ''b'', Type = ''note'',
                    Tags = [], CreatedAt = 2, UpdatedAt = 3\<rparr>)]\<rparr>)"
  by (simp add: Add_eval)

subsection \<open>The number of results\<close>

lemma length_fetch: "length (fetch b hits) \<le> length hits"
  by (induction hits) (auto split: option.splits sum.splits)




lemmas Search_eval = Search_def Let_def searchQuery_def index_Search_def ranked_def db_View_def
  bucket_Get_def quiet_def Sprintf_d_def decimal.simps digit_char_def





subsection \<open>Hits without a record\<close>

lemma fetch_skip: "bucket_Get b k = None \<Longrightarrow> fetch b (xs @ k # ys) = fetch b (xs @ ys)"
  by (induction xs) (auto split: option.splits sum.splits)

lemma fetch_filter: "fetch b (filter (\<lambda>k. bucket_Get b k \<noteq> None) hits) = fetch b hits"
  by (induction hits) (auto split: option.splits sum.splits)

lemma Search_fetch:
  assumes "index_Search sr (index_fault w) (index ms)
             \<lparr>Query = searchQuery queryString tags, Size = 100\<rparr> = Inr hits"
    and "db_fault w = None"
  shows "Search sr ms w queryString tags = Inr (fetch (db ms) hits)"
  using assms by (simp add: Search_def Let_def db_View_def)

text \<open>
  Claim C5. When the index answers with hits and the read transaction opens, \<^verbatim>\<open>Search\<close>
  returns records and no error: the records of the hits that the bucket holds, so a hit
  without a record is left out of the result as if the index had not returned it.
\<close>

theorem Search_skips_dangling:
  assumes "index_Search sr (index_fault w) (index ms)
             \<lparr>Query = searchQuery queryString tags, Size = 100\<rparr> = Inr hits"
    and "db_fault w = None"
  shows "Search sr ms w queryString tags
           = Inr (fetch (db ms) (filter (\<lambda>k. bucket_Get (db ms) k \<noteq> None) hits))
       \<and> (\<forall>xs k ys. hits = xs @ k # ys \<and> bucket_Get (db ms) k = None
             \<longrightarrow> Search sr ms w queryString tags = Inr (fetch (db ms) (xs @ ys)))"
proof (intro conjI allI impI)
  have s: "Search sr ms w queryString tags = Inr (fetch (db ms) hits)"
    by (rule Search_fetch [OF assms])
  show "Search sr ms w queryString tags
          = Inr (fetch (db ms) (filter (\<lambda>k. bucket_Get (db ms) k \<noteq> None) hits))"
    unfolding fetch_filter by (rule s)
  fix xs k ys
  assume "hits = xs @ k # ys \<and> bucket_Get (db ms) k = None"
  with s show "Search sr ms w queryString tags = Inr (fetch (db ms) (xs @ ys))"
    by (simp add: fetch_skip)
qed

theorem Search_skips_dangling_witness:
  "index_Search exact_searcher (index_fault (quiet 1)) (index half_store)
       \<lparr>Query = searchQuery [] [], Size = 100\<rparr> = Inr [''mem_1'', ''mem_4'']
   \<and> db_fault (quiet 1) = None
   \<and> bucket_Get (db half_store) ''mem_1'' = None
   \<and> Search exact_searcher half_store (quiet 1) [] [] = Inr [water]"
proof -
  have h: "index_Search exact_searcher (index_fault (quiet 1)) (index half_store)
       \<lparr>Query = searchQuery [] [], Size = 100\<rparr> = Inr [''mem_1'', ''mem_4'']"
    by (simp add: Search_eval half_store_def exact_searcher_def)
  have d: "db_fault (quiet 1) = None" by (simp add: quiet_def)
  from Search_skips_dangling [OF h d] show ?thesis
    using h d by (simp add: half_store_def bucket_Get_def)
qed

subsection \<open>Failures during add\<close>

text \<open>
  Claim C6. In the semantic variant, when the call of the embedding provider fails, the
  handler of \<^verbatim>\<open>add_memory\<close> returns an error result that carries the provider's error,
  and the collection is the one it started with: no document is added.
\<close>

theorem embedding_failure_writes_nothing:
  assumes "args ''content'' = Some (JString content)"
    and "CreateEmbeddings out content = Inl err"
  shows "addMemoryTool_handler_semantic out collection args =
           Returns (NewToolResultError
             (''failed to generate embedding: error creating embedding: '' @ err), collection)"
  using assms by (simp add: addMemoryTool_handler_semantic_def generateEmbedding_def)

theorem embedding_failure_writes_nothing_witness:
  "[''content'' \<mapsto> JString []] ''content'' = Some (JString [])
   \<and> CreateEmbeddings (stub_outside 1) [] = Inl ''quota exceeded''
   \<and> addMemoryTool_handler_semantic (stub_outside 1) [] [''content'' \<mapsto> JString []] =
       Returns (NewToolResultError
         ''failed to generate embedding: error creating embedding: quota exceeded'', [])"
  using embedding_failure_writes_nothing [of "[''content'' \<mapsto> JString []]" "[]"
      "stub_outside 1" "''quota exceeded''" "[]"]
  by (simp add: stub_outside_def)

text \<open>
  Claim C7. When the bucket is written and the index then reports an error, \<^verbatim>\<open>Add\<close>
  returns that error and no id: the record is in the bucket, the index is as it was, and
  the handler of \<^verbatim>\<open>add_memory\<close> answers with an error result.
\<close>

theorem Add_index_failure_is_reported:
  assumes "db_fault w = None" and "index_fault w = Some err"
  shows "fst (Add ms w content memType tags) = Inl (''failed to index memory: '' @ err)
       \<and> bucket_Get (db (snd (Add ms w content memType tags))) (''mem_'' @ Sprintf_d (now1 w))
           = Some (Encoded \<lparr>ID = ''mem_'' @ Sprintf_d (now1 w), Content = content,
               Type = memType, Tags = tags, CreatedAt = now2 w, UpdatedAt = now3 w\<rparr>)
       \<and> index (snd (Add ms w content memType tags)) = index ms
       \<and> (args ''content'' = Some (JString content) \<longrightarrow>
            fst (addMemoryTool_handler ms w args)
              = NewToolResultError (''failed to index memory: '' @ err))"
  using assms
  by (simp add: addMemoryTool_handler_def Add_def new_memory_def Let_def db_Update_def
      index_Index_def bucket_Get_def bucket_Put_def json_Marshal_def update_conv')

theorem Add_index_failure_is_reported_witness:
  "db_fault (index_down 1) = None \<and> index_fault (index_down 1) = Some ''disk full''
   \<and> Add empty_store (index_down 1) ''The capital of France is Paris'' ''fact'' [''geography'']
       = (Inl ''failed to index memory: disk full'',
          \<lparr>db = [(''mem_1'', Encoded paris)], index = []\<rparr>)
   \<and> fst (addMemoryTool_handler empty_store (index_down 1)
        [''content'' \<mapsto> JString ''The capital of France is Paris''])
       = NewToolResultError ''failed to index memory: disk full''"
  using Add_index_failure_is_reported [of "index_down 1" "''disk full''" empty_store
      "''The capital of France is Paris''" "''fact''" "[''geography'']"
      "[''content'' \<mapsto> JString ''The capital of France is Paris'']"]
  by (simp add: index_down_def Add_def new_memory_def Let_def db_Update_def index_Index_def
      empty_store_def paris_def bucket_Put_def json_Marshal_def Sprintf_d_def decimal.simps digit_char_def)

subsection \<open>The type argument of add\_memory\<close>

text \<open>
  Claim C10. In the lexical handler of \<^verbatim>\<open>add_memory\<close>, when \<^verbatim>\<open>content\<close> is a string,
  \<^verbatim>\<open>type\<close> is absent or is not a string, and no library reports an error, the call
  succeeds and the record in the bucket has the type \<^verbatim>\<open>fact\<close>.
\<close>

theorem add_memory_type_defaults_to_fact:
  assumes "args ''content'' = Some (JString content)"
    and "\<forall>t. args ''type'' \<noteq> Some (JString t)"
    and "db_fault w = None" and "index_fault w = None"
  shows "fst (addMemoryTool_handler ms w args)
           = NewToolResultText (''Memory stored with ID: mem_'' @ Sprintf_d (now1 w))
       \<and> bucket_Get (db (snd (addMemoryTool_handler ms w args))) (''mem_'' @ Sprintf_d (now1 w))
           = Some (Encoded \<lparr>ID = ''mem_'' @ Sprintf_d (now1 w), Content = content,
               Type = ''fact'', Tags = string_tags (args ''tags''),
               CreatedAt = now2 w, UpdatedAt = now3 w\<rparr>)"
  using assms
  by (auto simp: addMemoryTool_handler_def Add_def new_memory_def Let_def db_Update_def
      index_Index_def bucket_Get_def bucket_Put_def json_Marshal_def update_conv' split: option.splits any.splits)

theorem add_memory_type_defaults_to_fact_witness:
  "fst (addMemoryTool_handler empty_store (quiet 1)
      [''content'' \<mapsto> JString ''The capital of France is Paris'',
       ''tags'' \<mapsto> JArray [JString ''geography'', JNull]])
     = NewToolResultText ''Memory stored with ID: mem_1''
   \<and> bucket_Get (db (snd (addMemoryTool_handler empty_store (quiet 1)
      [''content'' \<mapsto> JString ''The capital of France is Paris'',
       ''tags'' \<mapsto> JArray [JString ''geography'', JNull]]))) ''mem_1'' = Some (Encoded paris)
   \<and> fst (addMemoryTool_handler empty_store (quiet 1)
      [''content'' \<mapsto> JString ''The capital of France is Paris'', ''type'' \<mapsto> JNumber 3,
       ''tags'' \<mapsto> JArray [JString ''geography'', JNull]])
     = NewToolResultText ''Memory stored with ID: mem_1''
   \<and> bucket_Get (db (snd (addMemoryTool_handler empty_store (quiet 1)
      [''content'' \<mapsto> JString ''The capital of France is Paris'', ''type'' \<mapsto> JNumber 3,
       ''tags'' \<mapsto> JArray [JString ''geography'', JNull]]))) ''mem_1'' = Some (Encoded paris)"
  using add_memory_type_defaults_to_fact [of
      "[''content'' \<mapsto> JString ''The capital of France is Paris'',
        ''tags'' \<mapsto> JArray [JString ''geography'', JNull]]"
      "''The capital of France is Paris''" "quiet 1" empty_store]
    add_memory_type_defaults_to_fact [of
      "[''content'' \<mapsto> JString ''The capital of France is Paris'', ''type'' \<mapsto> JNumber 3,
        ''tags'' \<mapsto> JArray [JString ''geography'', JNull]]"
      "''The capital of France is Paris''" "quiet 1" empty_store]
  by (simp add: quiet_def paris_def Sprintf_d_def decimal.simps digit_char_def)

subsection \<open>Conjunctive search\<close>

lemma set_ranked: "set (ranked sr idx q hits) = set hits"
  by (simp add: ranked_def)

lemma length_ranked: "length (ranked sr idx q hits) = length hits"
  by (simp add: ranked_def)





subsection \<open>Runs of Add\<close>

lemma delete_fresh: "k \<notin> fst ` set al \<Longrightarrow> AList.delete k al = al"
  by (induction al) auto

lemma update_fresh: "k \<notin> fst ` set al \<Longrightarrow> AList.update k v al = al @ [(k, v)]"
  by (induction al) auto

lemma Add_quiet:
  assumes "db_fault w = None" and "index_fault w = None"
  shows "Add ms w content memType tags =
     (Inr (ID (new_memory w content memType tags)),
      \<lparr>db = AList.update (ID (new_memory w content memType tags))
              (Encoded (new_memory w content memType tags)) (db ms),
       index = AList.delete (ID (new_memory w content memType tags)) (index ms)
              @ [(ID (new_memory w content memType tags), new_memory w content memType tags)]\<rparr>)"
  using assms
  by (simp add: Add_def Let_def db_Update_def index_Index_def bucket_Put_def json_Marshal_def)

lemma new_memory_ID_eq:
  "(ID (new_memory w c t g) = ID (new_memory w' c' t' g')) = (now1 w = now1 w')"
  by (auto simp: new_memory_def dest: Sprintf_d_inj)

lemma add_all_fresh:
  assumes "\<forall>r\<in>set calls. db_fault (fst r) = None \<and> index_fault (fst r) = None"
    and "distinct (map (\<lambda>r. now1 (fst r)) calls)"
    and "\<forall>(w, c, t, g)\<in>set calls. ID (new_memory w c t g) \<notin> fst ` set (db ms) \<union> fst ` set (index ms)"
  shows "add_all ms calls =
     \<lparr>db = db ms @ map (\<lambda>(w, c, t, g). (ID (new_memory w c t g), Encoded (new_memory w c t g))) calls,
      index = index ms @ map (\<lambda>(w, c, t, g). (ID (new_memory w c t g), new_memory w c t g)) calls\<rparr>"
  using assms
proof (induction calls arbitrary: ms)
  case Nil
  then show ?case by simp
next
  case (Cons r calls)
  obtain w c t g where r: "r = (w, c, t, g)" by (cases r) auto
  let ?m = "new_memory w c t g"
  let ?ms = "\<lparr>db = db ms @ [(ID ?m, Encoded ?m)], index = index ms @ [(ID ?m, ?m)]\<rparr>"
  from Cons.prems r have q: "db_fault w = None" "index_fault w = None"
    and fr: "ID ?m \<notin> fst ` set (db ms)" "ID ?m \<notin> fst ` set (index ms)" by auto
  have step: "snd (Add ms w c t g) = ?ms"
    by (simp add: Add_quiet [OF q] update_fresh [OF fr(1)] delete_fresh [OF fr(2)])
  have "\<forall>(w', c', t', g')\<in>set calls.
          ID (new_memory w' c' t' g') \<notin> fst ` set (db ?ms) \<union> fst ` set (index ?ms)"
  proof (clarify)
    fix w' c' t' g'
    assume in_calls: "(w', c', t', g') \<in> set calls"
      and bad: "ID (new_memory w' c' t' g') \<in> fst ` set (db ?ms) \<union> fst ` set (index ?ms)"
    from Cons.prems(3) in_calls
    have "ID (new_memory w' c' t' g') \<notin> fst ` set (db ms) \<union> fst ` set (index ms)" by auto
    with bad have "ID (new_memory w' c' t' g') = ID ?m" by auto
    then have "now1 w' = now1 w" by (simp add: new_memory_ID_eq)
    moreover from Cons.prems(2) r in_calls have "now1 w \<noteq> now1 w'" by force
    ultimately show False by simp
  qed
  with Cons.prems have "add_all ?ms calls =
     \<lparr>db = db ?ms @ map (\<lambda>(w, c, t, g). (ID (new_memory w c t g), Encoded (new_memory w c t g))) calls,
      index = index ?ms @ map (\<lambda>(w, c, t, g). (ID (new_memory w c t g), new_memory w c t g)) calls\<rparr>"
    by (intro Cons.IH) auto
  with step r show ?case by simp
qed

lemma length_index_Add: "length (index (snd (Add ms w c t g))) \<le> Suc (length (index ms))"
proof -
  have "length (AList.delete k al) \<le> length al" for k and al :: index
    by (simp add: AList.delete_eq)
  from this [of "ID (new_memory w c t g)" "index ms"] show ?thesis
    by (auto simp: Add_def Let_def db_Update_def index_Index_def split: option.splits)
qed

lemma length_index_add_all:
  "length (index (add_all ms calls)) \<le> length (index ms) + length calls"
proof (induction calls arbitrary: ms)
  case Nil
  then show ?case by simp
next
  case (Cons r calls)
  obtain w c t g where r: "r = (w, c, t, g)" by (cases r) auto
  from Cons.IH [of "snd (Add ms w c t g)"] length_index_Add [of ms w c t g] r
  show ?case by simp
qed

subsection \<open>Match-all search\<close>

lemma length_fetch_all:
  "\<forall>k\<in>set hits. \<exists>m. bucket_Get b k = Some (Encoded m) \<Longrightarrow> length (fetch b hits) = length hits"
  by (induction hits) auto

lemma filter_match_all: "filter (\<lambda>(k, doc). query_matches sr MatchAllQuery doc) idx = idx"
  by (simp add: case_prod_unfold)

lemma match_all_hits:
  "index_Search sr None idx \<lparr>Query = searchQuery [] [], Size = 100\<rparr>
     = Inr (map fst (take 100 (ranked sr idx MatchAllQuery idx)))"
  by (simp add: index_Search_def searchQuery_def filter_match_all)

lemma Search_match_all_length:
  assumes "Search sr ms w [] [] = Inr results"
  shows "length results \<le> min (length (index ms)) 100"
proof -
  from assms have f: "index_fault w = None"
    and r: "results = fetch (db ms) (map fst (take 100 (ranked sr (index ms) MatchAllQuery (index ms))))"
    by (auto simp: Search_def Let_def db_View_def index_Search_def searchQuery_def
        filter_match_all split: sum.splits option.splits)
  have "length results \<le> length (map fst (take 100 (ranked sr (index ms) MatchAllQuery (index ms))))"
    unfolding r by (rule length_fetch)
  then show ?thesis by (simp add: length_ranked)
qed

lemma Search_after_adds:
  assumes q: "\<forall>r\<in>set calls. db_fault (fst r) = None \<and> index_fault (fst r) = None"
    and d: "distinct (map (\<lambda>r. now1 (fst r)) calls)"
    and w: "db_fault w = None" "index_fault w = None"
  shows "\<exists>results. Search sr (add_all empty_store calls) w [] [] = Inr results
           \<and> length results = min (length calls) 100"
proof -
  let ?db = "map (\<lambda>(w, c, t, g). (ID (new_memory w c t g), Encoded (new_memory w c t g))) calls"
  let ?idx = "map (\<lambda>(w, c, t, g). (ID (new_memory w c t g), new_memory w c t g)) calls"
  let ?hits = "map fst (take 100 (ranked sr ?idx MatchAllQuery ?idx))"
  have st: "add_all empty_store calls = \<lparr>db = ?db, index = ?idx\<rparr>"
    using add_all_fresh [OF q d, of empty_store] by (simp add: empty_store_def)
  have s: "Search sr (add_all empty_store calls) w [] [] = Inr (fetch ?db ?hits)"
    using w by (simp add: st Search_def Let_def db_View_def match_all_hits)
  have "\<forall>k\<in>set ?hits. \<exists>m. bucket_Get ?db k = Some (Encoded m)"
  proof
    fix k assume "k \<in> set ?hits"
    then have "k \<in> fst ` set (ranked sr ?idx MatchAllQuery ?idx)"
      by (auto dest: in_set_takeD)
    then have "k \<in> fst ` set ?db" by (force simp: set_ranked)
    then obtain v where v: "map_of ?db k = Some v"
      by (cases "map_of ?db k") (auto simp: map_of_eq_None_iff)
    then have "(k, v) \<in> set ?db" by (rule map_of_SomeD)
    then obtain m where "v = Encoded m" by auto
    with v show "\<exists>m. bucket_Get ?db k = Some (Encoded m)" by (simp add: bucket_Get_def)
  qed
  then have "length (fetch ?db ?hits) = length ?hits" by (rule length_fetch_all)
  then have "length (fetch ?db ?hits) = min (length calls) 100" by (simp add: length_ranked)
  with s show ?thesis by simp
qed

text \<open>
  Claim C8. With empty text and no tags the query is the match-all query, which every
  document matches: the index answers with \<open>min N 100\<close> hits when it holds \<open>N\<close>
  documents. After \<open>N\<close> calls of \<^verbatim>\<open>Add\<close> on the empty store the search returns at most
  \<open>min N 100\<close> records, and exactly that many when no library reported an error and the
  clock readings of the calls differ.
\<close>

theorem Search_match_all:
  "query_matches sr (searchQuery [] []) doc
   \<and> (index_fault w = None \<longrightarrow>
        (\<exists>hits. index_Search sr (index_fault w) (index ms) \<lparr>Query = searchQuery [] [], Size = 100\<rparr>
                   = Inr hits
           \<and> length hits = min (length (index ms)) 100 \<and> set hits \<subseteq> fst ` set (index ms)))
   \<and> (Search sr (add_all empty_store calls) w [] [] = Inr results
        \<longrightarrow> length results \<le> min (length calls) 100)
   \<and> ((\<forall>r\<in>set calls. db_fault (fst r) = None \<and> index_fault (fst r) = None)
        \<and> distinct (map (\<lambda>r. now1 (fst r)) calls)
        \<and> db_fault w = None \<and> index_fault w = None
        \<longrightarrow> (\<exists>results. Search sr (add_all empty_store calls) w [] [] = Inr results
              \<and> length results = min (length calls) 100))"
proof (intro conjI impI)
  show "query_matches sr (searchQuery [] []) doc" by (simp add: searchQuery_def)
next
  assume "index_fault w = None"
  then show "\<exists>hits. index_Search sr (index_fault w) (index ms)
        \<lparr>Query = searchQuery [] [], Size = 100\<rparr> = Inr hits
      \<and> length hits = min (length (index ms)) 100 \<and> set hits \<subseteq> fst ` set (index ms)"
    by (auto simp: match_all_hits length_ranked set_ranked dest!: in_set_takeD)
next
  assume a: "Search sr (add_all empty_store calls) w [] [] = Inr results"
  have "length (index (add_all empty_store calls)) \<le> length calls"
    using length_index_add_all [of empty_store calls] by (simp add: empty_store_def)
  with Search_match_all_length [OF a] show "length results \<le> min (length calls) 100" by simp
next
  assume "(\<forall>r\<in>set calls. db_fault (fst r) = None \<and> index_fault (fst r) = None)
        \<and> distinct (map (\<lambda>r. now1 (fst r)) calls)
        \<and> db_fault w = None \<and> index_fault w = None"
  then show "\<exists>results. Search sr (add_all empty_store calls) w [] [] = Inr results
              \<and> length results = min (length calls) 100"
    using Search_after_adds by blast
qed


lemma three_calls_store:
  "add_all empty_store three_calls =
     \<lparr>db = [(''mem_1'', Encoded (new_memory (quiet 1) ''first'' ''fact'' [''a''])),
            (''mem_4'', Encoded (new_memory (quiet 4) ''second'' ''fact'' [''b''])),
            (''mem_7'', Encoded (new_memory (quiet 7) ''third'' ''fact'' [''a'', ''b'']))],
      index = [(''mem_1'', new_memory (quiet 1) ''first'' ''fact'' [''a'']),
            (''mem_4'', new_memory (quiet 4) ''second'' ''fact'' [''b'']),
            (''mem_7'', new_memory (quiet 7) ''third'' ''fact'' [''a'', ''b''])]\<rparr>"
  by (simp add: three_calls_def Add_eval)


theorem Search_match_all_witness:
  "query_matches exact_searcher (searchQuery [] []) paris
   \<and> index_Search exact_searcher (index_fault (quiet 9)) (index half_store)
        \<lparr>Query = searchQuery [] [], Size = 100\<rparr> = Inr [''mem_1'', ''mem_4'']
   \<and> Search exact_searcher (add_all empty_store three_calls) (quiet 9) [] []
       = Inr [new_memory (quiet 1) ''first'' ''fact'' [''a''],
              new_memory (quiet 4) ''second'' ''fact'' [''b''],
              new_memory (quiet 7) ''third'' ''fact'' [''a'', ''b'']]
   \<and> length [new_memory (quiet 1) ''first'' ''fact'' [''a''],
              new_memory (quiet 4) ''second'' ''fact'' [''b''],
              new_memory (quiet 7) ''third'' ''fact'' [''a'', ''b'']] = min (length three_calls) 100"
proof -
  have s: "Search exact_searcher (add_all empty_store three_calls) (quiet 9) [] []
       = Inr [new_memory (quiet 1) ''first'' ''fact'' [''a''],
              new_memory (quiet 4) ''second'' ''fact'' [''b''],
              new_memory (quiet 7) ''third'' ''fact'' [''a'', ''b'']]"
    unfolding three_calls_store by (simp add: Search_eval exact_searcher_def)
  have h: "index_Search exact_searcher (index_fault (quiet 9)) (index half_store)
        \<lparr>Query = searchQuery [] [], Size = 100\<rparr> = Inr [''mem_1'', ''mem_4'']"
    by (simp add: Search_eval half_store_def exact_searcher_def)
  have l: "length three_calls = 3" by (simp add: three_calls_def)
  from Search_match_all [of exact_searcher paris "quiet 9" half_store three_calls
      "[new_memory (quiet 1) ''first'' ''fact'' [''a''],
        new_memory (quiet 4) ''second'' ''fact'' [''b''],
        new_memory (quiet 7) ''third'' ''fact'' [''a'', ''b'']]"]
  show ?thesis using s h l by simp
qed

subsection \<open>Rebuilding the index at startup\<close>

lemma keys_delete: "fst ` set (AList.delete k al) = fst ` set al - {k}"
  by (induction al) auto

lemma index_Index_keys:
  "index_Index fault idx k doc = Inr idx' \<Longrightarrow> fst ` set idx' = insert k (fst ` set idx)"
proof -
  assume "index_Index fault idx k doc = Inr idx'"
  then have "idx' = AList.delete k idx @ [(k, doc)]"
    by (auto simp: index_Index_def split: option.splits)
  then have "fst ` set idx' = (fst ` set idx - {k}) \<union> {k}"
    by (simp add: image_Un keys_delete)
  then show ?thesis by auto
qed

lemma index_Index_map_of:
  "index_Index fault idx k doc = Inr idx' \<Longrightarrow> map_of idx' = (map_of idx)(k \<mapsto> doc)"
  by (auto simp: index_Index_def delete_conv' fun_eq_iff map_add_def
      split: option.splits)

lemma index_existing_keys:
  "index_existing flt kvs idx = Inr idx' \<Longrightarrow>
   fst ` set idx \<subseteq> fst ` set idx'
   \<and> (\<forall>k m. (k, Encoded m) \<in> set kvs \<longrightarrow> ID m \<in> fst ` set idx')"
proof (induction kvs arbitrary: idx)
  case Nil
  then show ?case by simp
next
  case (Cons kv kvs)
  obtain k v where kv: "kv = (k, v)" by (cases kv) auto
  from Cons.prems kv obtain memory idx1 where v: "v = Encoded memory"
    and i: "index_Index (flt (ID memory)) idx (ID memory) memory = Inr idx1"
    and r: "index_existing flt kvs idx1 = Inr idx'"
    by (cases v) (auto split: sum.splits)
  from Cons.IH [OF r] index_Index_keys [OF i] kv v show ?case by auto
qed

lemma index_existing_only:
  "index_existing flt kvs idx = Inr idx' \<Longrightarrow>
   fst ` set idx' \<subseteq> fst ` set idx \<union> {ID m |k m. (k, Encoded m) \<in> set kvs}"
proof (induction kvs arbitrary: idx)
  case Nil
  then show ?case by simp
next
  case (Cons kv kvs)
  obtain k v where kv: "kv = (k, v)" by (cases kv) auto
  from Cons.prems kv obtain memory idx1 where v: "v = Encoded memory"
    and i: "index_Index (flt (ID memory)) idx (ID memory) memory = Inr idx1"
    and r: "index_existing flt kvs idx1 = Inr idx'"
    by (cases v) (auto split: sum.splits)
  have "fst ` set idx' \<subseteq> fst ` set idx1 \<union> {ID m |k m. (k, Encoded m) \<in> set kvs}"
    by (rule Cons.IH [OF r])
  also have "fst ` set idx1 = insert (ID memory) (fst ` set idx)"
    by (rule index_Index_keys [OF i])
  also have "insert (ID memory) (fst ` set idx) \<union> {ID m |k m. (k, Encoded m) \<in> set kvs}
      \<subseteq> fst ` set idx \<union> {ID m |k m. (k, Encoded m) \<in> set (kv # kvs)}"
    using kv v by auto
  finally show ?case .
qed

lemma index_existing_map_of:
  "index_existing flt kvs idx = Inr idx' \<Longrightarrow> distinct (map fst kvs) \<Longrightarrow>
   \<forall>k m. (k, Encoded m) \<in> set kvs \<longrightarrow> ID m = k \<Longrightarrow>
   (\<forall>k. k \<notin> fst ` set kvs \<longrightarrow> map_of idx' k = map_of idx k)
   \<and> (\<forall>k m. (k, Encoded m) \<in> set kvs \<longrightarrow> map_of idx' k = Some m)"
proof (induction kvs arbitrary: idx)
  case Nil
  then show ?case by simp
next
  case (Cons kv kvs)
  obtain k v where kv: "kv = (k, v)" by (cases kv) auto
  from Cons.prems(1) kv obtain memory idx1 where v: "v = Encoded memory"
    and i: "index_Index (flt (ID memory)) idx (ID memory) memory = Inr idx1"
    and r: "index_existing flt kvs idx1 = Inr idx'"
    by (cases v) (auto split: sum.splits)
  from Cons.prems(3) kv v have id: "ID memory = k" by simp
  from Cons.prems(2) kv have d: "distinct (map fst kvs)" and nk: "k \<notin> fst ` set kvs" by auto
  from Cons.prems(3) have w: "\<forall>k m. (k, Encoded m) \<in> set kvs \<longrightarrow> ID m = k" by simp
  from Cons.IH [OF r d w]
  have a: "\<forall>k. k \<notin> fst ` set kvs \<longrightarrow> map_of idx' k = map_of idx1 k"
    and b: "\<forall>k m. (k, Encoded m) \<in> set kvs \<longrightarrow> map_of idx' k = Some m" by auto
  have m1: "map_of idx1 = (map_of idx)(k \<mapsto> memory)"
    using index_Index_map_of [OF i] id by simp
  show ?case
  proof (intro conjI allI impI)
    fix k' assume "k' \<notin> fst ` set (kv # kvs)"
    with kv a m1 show "map_of idx' k' = map_of idx k'" by auto
  next
    fix k' m assume "(k', Encoded m) \<in> set (kv # kvs)"
    then consider "k' = k" "m = memory" | "(k', Encoded m) \<in> set kvs" using kv v by auto
    then show "map_of idx' k' = Some m"
    proof cases
      case 1
      with a nk m1 show ?thesis by simp
    next
      case 2
      with b show ?thesis by blast
    qed
  qed
qed

lemma index_existing_succeeds:
  "\<forall>k. flt k = None \<Longrightarrow> \<forall>(k, v)\<in>set kvs. \<exists>m. v = Encoded m \<Longrightarrow>
   \<exists>idx'. index_existing flt kvs idx = Inr idx'"
  by (induction kvs arbitrary: idx) (auto simp: index_Index_def)

lemma NewMemoryStore_rebuilt:
  assumes "bleve_Open (index_dir d) = Inl e" and "NewMemoryStore d w = Inr ms"
  shows "index_existing (doc_fault w) (bucket_pairs (db ms)) [] = Inr (index ms)"
  using assms
  by (auto simp: NewMemoryStore_def db_Update_def db_View_def bleve_New_def
      split: sum.splits option.splits)

text \<open>
  Claim C9. When the index cannot be opened at startup, a \<^verbatim>\<open>NewMemoryStore\<close> that
  succeeds returns a store in which the id of every record of the bucket is indexed and
  no other id is, and each is indexed with its record when the records are stored under
  their own ids. It succeeds
  when the database opens, every value of the bucket decodes and no library reports an
  error.
\<close>

theorem NewMemoryStore_rebuilds_index:
  assumes "bleve_Open (index_dir d) = Inl e"
  shows "(NewMemoryStore d w = Inr ms \<longrightarrow>
            (\<forall>k m. bucket_Get (db ms) k = Some (Encoded m) \<longrightarrow> ID m \<in> fst ` set (index ms))
            \<and> fst ` set (index ms) \<subseteq> {ID m |k m. (k, Encoded m) \<in> set (db ms)})
       \<and> (NewMemoryStore d w = Inr ms \<and> distinct (map fst (db ms))
            \<and> (\<forall>k m. (k, Encoded m) \<in> set (db ms) \<longrightarrow> ID m = k) \<longrightarrow>
            (\<forall>k m. bucket_Get (db ms) k = Some (Encoded m) \<longrightarrow> map_of (index ms) k = Some m))
       \<and> (bolt_Open (db_file d) = Inr f \<and> bucket_fault w = None \<and> new_fault w = None
            \<and> view_fault w = None \<and> (\<forall>k. doc_fault w k = None)
            \<and> (\<forall>(k, v)\<in>set (CreateBucketIfNotExists f). \<exists>m. v = Encoded m) \<longrightarrow>
            (\<exists>ms'. NewMemoryStore d w = Inr ms' \<and> db ms' = CreateBucketIfNotExists f))"
proof (intro conjI)
  show "NewMemoryStore d w = Inr ms \<longrightarrow>
      (\<forall>k m. bucket_Get (db ms) k = Some (Encoded m) \<longrightarrow> ID m \<in> fst ` set (index ms))
      \<and> fst ` set (index ms) \<subseteq> {ID m |k m. (k, Encoded m) \<in> set (db ms)}"
  proof (intro impI allI conjI)
    fix k m
    assume n: "NewMemoryStore d w = Inr ms" and g: "bucket_Get (db ms) k = Some (Encoded m)"
    from g have "(k, Encoded m) \<in> set (bucket_pairs (db ms))"
      by (auto simp: bucket_Get_def bucket_pairs_def dest: map_of_SomeD)
    with index_existing_keys [OF NewMemoryStore_rebuilt [OF assms n]]
    show "ID m \<in> fst ` set (index ms)" by blast
  next
    assume n: "NewMemoryStore d w = Inr ms"
    from index_existing_only [OF NewMemoryStore_rebuilt [OF assms n]]
    show "fst ` set (index ms) \<subseteq> {ID m |k m. (k, Encoded m) \<in> set (db ms)}"
      by (simp add: bucket_pairs_def)
  qed
next
  show "NewMemoryStore d w = Inr ms \<and> distinct (map fst (db ms))
      \<and> (\<forall>k m. (k, Encoded m) \<in> set (db ms) \<longrightarrow> ID m = k) \<longrightarrow>
      (\<forall>k m. bucket_Get (db ms) k = Some (Encoded m) \<longrightarrow> map_of (index ms) k = Some m)"
  proof (intro impI allI)
    fix k m
    assume a: "NewMemoryStore d w = Inr ms \<and> distinct (map fst (db ms))
      \<and> (\<forall>k m. (k, Encoded m) \<in> set (db ms) \<longrightarrow> ID m = k)"
      and g: "bucket_Get (db ms) k = Some (Encoded m)"
    from a have dist: "distinct (map fst (bucket_pairs (db ms)))"
      unfolding bucket_pairs_def by (metis distinct_map distinct_sort set_sort)
    from a have keyed: "\<forall>k m. (k, Encoded m) \<in> set (bucket_pairs (db ms)) \<longrightarrow> ID m = k"
      by (simp add: bucket_pairs_def)
    from g have "(k, Encoded m) \<in> set (bucket_pairs (db ms))"
      by (auto simp: bucket_Get_def bucket_pairs_def dest: map_of_SomeD)
    with index_existing_map_of [OF NewMemoryStore_rebuilt [OF assms] dist keyed] a
    show "map_of (index ms) k = Some m" by blast
  qed
next
  show "bolt_Open (db_file d) = Inr f \<and> bucket_fault w = None \<and> new_fault w = None
      \<and> view_fault w = None \<and> (\<forall>k. doc_fault w k = None)
      \<and> (\<forall>(k, v)\<in>set (CreateBucketIfNotExists f). \<exists>m. v = Encoded m) \<longrightarrow>
      (\<exists>ms'. NewMemoryStore d w = Inr ms' \<and> db ms' = CreateBucketIfNotExists f)"
  proof (intro impI)
    assume a: "bolt_Open (db_file d) = Inr f \<and> bucket_fault w = None \<and> new_fault w = None
      \<and> view_fault w = None \<and> (\<forall>k. doc_fault w k = None)
      \<and> (\<forall>(k, v)\<in>set (CreateBucketIfNotExists f). \<exists>m. v = Encoded m)"
    then have "\<forall>(k, v)\<in>set (bucket_pairs (CreateBucketIfNotExists f)). \<exists>m. v = Encoded m"
      by (simp add: bucket_pairs_def)
    with a obtain idx' where
      "index_existing (doc_fault w) (bucket_pairs (CreateBucketIfNotExists f)) [] = Inr idx'"
      using index_existing_succeeds by blast
    with a assms show "\<exists>ms'. NewMemoryStore d w = Inr ms' \<and> db ms' = CreateBucketIfNotExists f"
      by (simp add: NewMemoryStore_def db_Update_def db_View_def bleve_New_def)
  qed
qed

lemma lost_index_boot:
  "NewMemoryStore lost_index clean_boot =
     Inr \<lparr>db = [(''mem_4'', Encoded water), (''mem_1'', Encoded paris)],
          index = [(''mem_1'', paris), (''mem_4'', water)]\<rparr>"
  by (simp add: NewMemoryStore_def lost_index_def clean_boot_def db_Update_def db_View_def
      bleve_New_def bucket_pairs_def index_Index_def paris_def water_def)

theorem NewMemoryStore_rebuilds_index_witness:
  "bleve_Open (index_dir lost_index) = Inl ''cannot open index, path does not exist''
   \<and> NewMemoryStore lost_index clean_boot =
       Inr \<lparr>db = [(''mem_4'', Encoded water), (''mem_1'', Encoded paris)],
            index = [(''mem_1'', paris), (''mem_4'', water)]\<rparr>
   \<and> bucket_Get [(''mem_4'', Encoded water), (''mem_1'', Encoded paris)] ''mem_4''
       = Some (Encoded water)
   \<and> ID water \<in> fst ` set [(''mem_1'', paris), (''mem_4'', water)]
   \<and> map_of [(''mem_1'', paris), (''mem_4'', water)] ''mem_4'' = Some water"
proof -
  have o: "bleve_Open (index_dir lost_index) = Inl ''cannot open index, path does not exist''"
    by (simp add: lost_index_def)
  from NewMemoryStore_rebuilds_index [OF o, of clean_boot
      "\<lparr>db = [(''mem_4'', Encoded water), (''mem_1'', Encoded paris)],
        index = [(''mem_1'', paris), (''mem_4'', water)]\<rparr>"
      "Some [(''mem_4'', Encoded water), (''mem_1'', Encoded paris)]"]
  show ?thesis
    using o lost_index_boot by (simp add: bucket_Get_def water_def)
qed

end
